theory Spec2Isabelle
  imports Complex_Main
begin

section \<open>Errors and the ambient working precision\<close>

text \<open>
  The Python exceptions the modelled code can raise. \<open>KeyError\<close> carries the key that
  was missing, \<open>NameError\<close> the name that could not be resolved. \<open>TypeError\<close> stands
  for calling an object that is not callable, \<open>RuntimeError\<close> for the protocol error of
  \<open>contextlib.contextmanager\<close> (a generator that yields twice).
\<close>

datatype error = KeyError int | NameError string | TypeError | RuntimeError

text \<open>
  The only shared mutable state is mpmath's ambient precision \<open>mp.prec\<close>, an integer.
  A computation that reads and writes it is a function from the precision before to the
  result and the precision after; \<open>None\<close> is a computation that does not return.

  \<open>with workprec(n): body\<close> saves the precision in force, runs the body with the
  precision set to \<open>n\<close>, and puts the saved precision back when the block is left, whether
  the body returned or raised (the body's outcome, error or result, is passed on).
\<close>

type_synonym 'r prec_comp = "int \<Rightarrow> ('r \<times> int) option"

definition workprec :: "int \<Rightarrow> 'r prec_comp \<Rightarrow> 'r prec_comp" where
  "workprec n body orig =
     (case body n of
        None \<Rightarrow> None
      | Some (r, after) \<Rightarrow> Some (r, orig))"

text \<open>\<open>prec or mp.prec\<close>: the explicit precision unless it is \<open>None\<close> or zero.\<close>

definition prec_or :: "int option \<Rightarrow> int \<Rightarrow> int" where
  "prec_or prec mp_prec =
     (case prec of
        None \<Rightarrow> mp_prec
      | Some p \<Rightarrow> if p = 0 then mp_prec else p)"

section \<open>The IEEE format model (fp/ieee.py)\<close>

text \<open>
  \<open>IEEEFormat.__init__(name, bits, exp, prec)\<close> stores \<open>bits\<close>, \<open>exp\<close>, \<open>prec\<close> and the
  derived \<open>bias = 2 ** (exp - 1) - 1\<close>; the name is not stored. The field \<open>exp\<close> is
  \<open>exp_bits\<close> here (\<open>exp\<close> is the exponential function).
\<close>

record IEEEFormat =
  bits :: int
  exp_bits :: int
  prec :: int
  bias :: int

definition mk_IEEEFormat :: "string \<Rightarrow> int \<Rightarrow> int \<Rightarrow> int \<Rightarrow> IEEEFormat" where
  "mk_IEEEFormat name b e p =
     \<lparr>bits = b, exp_bits = e, prec = p, bias = 2 ^ nat (e - 1) - 1\<rparr>"

definition min_exp :: "IEEEFormat \<Rightarrow> bool \<Rightarrow> int" where
  "min_exp fmt denorm =
     (let m = - (bias fmt - 1)
      in if denorm then m - (prec fmt - 1) else m)"

definition max_exp :: "IEEEFormat \<Rightarrow> int" where
  "max_exp fmt = bias fmt"

definition ieee_float :: IEEEFormat where
  "ieee_float = mk_IEEEFormat ''single'' 32 8 24"

definition ieee_double :: IEEEFormat where
  "ieee_double = mk_IEEEFormat ''double'' 64 11 53"

definition intel_extended :: IEEEFormat where
  "intel_extended = mk_IEEEFormat ''extended'' 80 15 63"

definition ieee_quad :: IEEEFormat where
  "ieee_quad = mk_IEEEFormat ''quad'' 128 15 113"

text \<open>
  \<open>ieee_formats = dict((f.prec, f) for f in (...))\<close>: the formats in insertion order,
  and the dictionary built from them (a later entry would replace an earlier one with the
  same key).
\<close>

definition registered :: "IEEEFormat list" where
  "registered = [ieee_float, ieee_double, intel_extended, ieee_quad]"

definition ieee_formats :: "int \<rightharpoonup> IEEEFormat" where
  "ieee_formats = foldl (\<lambda>m f. m(prec f \<mapsto> f)) Map.empty registered"

definition ieee_format :: "int option \<Rightarrow> int \<Rightarrow> error + IEEEFormat" where
  "ieee_format p mp_prec =
     (let k = prec_or p mp_prec
      in case ieee_formats k of
           None \<Rightarrow> Inl (KeyError k)
         | Some fmt \<Rightarrow> Inr fmt)"

text \<open>
  \<open>workfloat\<close> is a generator turned into a context manager. The generator walks the
  registry in order and yields, inside \<open>mp.workprec(fmt.prec)\<close>, at every format whose bit
  or byte width is the argument; when it has yielded at none it raises \<open>KeyError\<close>.
  \<open>workfloat_matches\<close> lists the formats it yields at. Entering the context runs the
  generator to its first yield; leaving it resumes the generator, which must then finish:
  a second yield is \<open>contextmanager\<close>'s \<open>RuntimeError\<close>, raised while the generator
  is suspended inside the second format's block. No width matches two registered formats
  (\<open>workfloat_single_match\<close> below), so that case does not arise.
\<close>

definition workfloat_matches :: "int \<Rightarrow> IEEEFormat list" where
  "workfloat_matches b = filter (\<lambda>fmt. b = bits fmt \<or> b = bits fmt div 8) registered"

definition workfloat :: "int \<Rightarrow> (error + 'r) prec_comp \<Rightarrow> (error + 'r) prec_comp" where
  "workfloat b body mp_prec =
     (case workfloat_matches b of
        [] \<Rightarrow> Some (Inl (KeyError b), mp_prec)
      | [fmt] \<Rightarrow> workprec (prec fmt) body mp_prec
      | fmt # fmt' # _ \<Rightarrow>
          (case workprec (prec fmt) body mp_prec of
             None \<Rightarrow> None
           | Some (Inl e, after) \<Rightarrow> Some (Inl e, after)
           | Some (Inr r, after) \<Rightarrow> Some (Inl RuntimeError, prec fmt')))"

section \<open>The arbitrary-precision arithmetic (mpmath)\<close>

text \<open>
  mpmath is a library outside the repository. Its numbers are values of a type \<open>'v\<close>, and
  the operations the repository calls are the fields of a record, taken as a parameter
  \<open>M\<close> by every function that computes with them. An operation whose result is rounded
  to the ambient precision takes that precision as its first argument. \<open>import_prec\<close> is
  the precision in force when \<open>fp/util.py\<close> was imported and computed \<open>two = one + one\<close>.
  Python's \<open>==\<close> and \<open>!=\<close> on these numbers are equality and its negation on \<open>'v\<close>.
\<close>

record 'v mpmath =
  import_prec :: int
  mp_zero :: "'v"
  mp_one :: "'v"
  mp_of_int :: "int \<Rightarrow> 'v"
  mpf :: "int \<Rightarrow> 'v \<Rightarrow> 'v"
  mp_add :: "int \<Rightarrow> 'v \<Rightarrow> 'v \<Rightarrow> 'v"
  mp_sub :: "int \<Rightarrow> 'v \<Rightarrow> 'v \<Rightarrow> 'v"
  mp_mul :: "int \<Rightarrow> 'v \<Rightarrow> 'v \<Rightarrow> 'v"
  mp_div :: "int \<Rightarrow> 'v \<Rightarrow> 'v \<Rightarrow> 'v"
  mp_abs :: "int \<Rightarrow> 'v \<Rightarrow> 'v"
  mp_le :: "'v \<Rightarrow> 'v \<Rightarrow> bool"
  mp_gt :: "'v \<Rightarrow> 'v \<Rightarrow> bool"
  mp_log :: "int \<Rightarrow> 'v \<Rightarrow> 'v \<Rightarrow> 'v"
  mp_floor :: "int \<Rightarrow> 'v \<Rightarrow> 'v"
  mp_power :: "int \<Rightarrow> 'v \<Rightarrow> 'v \<Rightarrow> 'v"

subsection \<open>fp/util.py\<close>

definition zero :: "'v mpmath \<Rightarrow> 'v" where
  "zero M = mp_zero M"

definition one :: "'v mpmath \<Rightarrow> 'v" where
  "one M = mp_one M"

definition two :: "'v mpmath \<Rightarrow> 'v" where
  "two M = mp_add M (import_prec M) (one M) (one M)"

text \<open>\<open>next_power(x, n=2)\<close>, called with ambient precision \<open>p\<close>.\<close>

definition next_power :: "'v mpmath \<Rightarrow> int \<Rightarrow> 'v \<Rightarrow> int \<Rightarrow> 'v" where
  "next_power M p x n =
     (let x' = mp_abs M p x
      in mp_power M p (mp_of_int M n)
           (mp_add M p (mp_floor M p (mp_log M p x' (mp_of_int M n))) (mp_of_int M 1)))"

subsection \<open>Values and ULP of a format\<close>

text \<open>\<open>min_value\<close> and \<open>max_value\<close>, called with ambient precision \<open>p\<close>.\<close>

definition min_value :: "'v mpmath \<Rightarrow> int \<Rightarrow> IEEEFormat \<Rightarrow> bool \<Rightarrow> 'v" where
  "min_value M p fmt denorm =
     mp_power M p (mp_of_int M 2) (mp_of_int M (min_exp fmt denorm))"

definition max_value :: "'v mpmath \<Rightarrow> int \<Rightarrow> IEEEFormat \<Rightarrow> 'v" where
  "max_value M p fmt = mp_power M p (mp_of_int M 2) (mp_of_int M (max_exp fmt))"

text \<open>
  The loop of \<open>IEEEFormat.ulp\<close>, run inside \<open>mp.workprec(self.prec)\<close>: \<open>p\<close> is the
  format's precision, \<open>bound\<close> is \<open>abs(self.min_exp(denorm=True))\<close>. The counter grows
  towards the bound, so the loop ends.
\<close>

function ulp_loop :: "'v mpmath \<Rightarrow> int \<Rightarrow> 'v \<Rightarrow> int \<Rightarrow> 'v \<Rightarrow> int \<Rightarrow> 'v" where
  "ulp_loop M p x bound u n =
     (if mp_add M p x u \<noteq> x \<and> u \<noteq> zero M \<and> n < bound
      then ulp_loop M p x bound (mp_div M p u (two M)) (n + 1)
      else u)"
  by pat_completeness auto
termination
  by (relation "measure (\<lambda>(M, p, x, bound, u, n). nat (bound - n))") auto

declare ulp_loop.simps [simp del]

text \<open>
  \<open>fmt.ulp(x)\<close> called with ambient precision \<open>a\<close>: the conversion \<open>mpf(x)\<close> and the
  final \<open>ulp * two\<close> are evaluated at \<open>a\<close>, \<open>next_power\<close> and the loop at the format's
  precision, which the \<open>with\<close> block puts back to \<open>a\<close>.
\<close>

definition ulp :: "'v mpmath \<Rightarrow> IEEEFormat \<Rightarrow> 'v \<Rightarrow> int \<Rightarrow> 'v" where
  "ulp M fmt x a =
     (let x' = mpf M a x;
          bound = \<bar>min_exp fmt True\<bar>;
          u = ulp_loop M (prec fmt) x' bound (next_power M (prec fmt) x' 2) 0
      in mp_mul M a u (two M))"

section \<open>The coarse search (limits.py)\<close>

text \<open>
  The \<open>limit\<close> argument of the searches is either a value or a callable. The candidate
  function, the limit function and the step function are the input-output behaviour of
  the Python callables at the working precision of the search.
\<close>

datatype ('a, 'b) limit_arg = Constant 'b | Callable "'a \<Rightarrow> 'b"

text \<open>
  The \<open>while\<close> loop of \<open>find_fp\<close>, with the loop variables \<open>nsteps\<close> and \<open>x\<close> as the
  last two arguments. \<open>xstop\<close> and \<open>max_steps\<close> may be \<open>None\<close>. Nothing in the loop
  itself bounds the number of rounds, so the result is optional: \<open>None\<close> is a loop that
  runs forever.
\<close>

partial_function (option) find_fp_loop ::
  "('a \<Rightarrow> 'b) \<Rightarrow> ('a \<Rightarrow> 'b) \<Rightarrow> 'a option \<Rightarrow> ('a \<Rightarrow> 'a) \<Rightarrow> ('b \<Rightarrow> 'b \<Rightarrow> bool) \<Rightarrow> int option
     \<Rightarrow> int \<Rightarrow> 'a \<Rightarrow> (int \<times> 'a) option"
where
  "find_fp_loop func limit xstop xstep compare max_steps nsteps x =
     (if (xstop = None \<or> Some x \<noteq> xstop)
         \<and> (max_steps = None \<or> Some nsteps \<noteq> max_steps)
         \<and> \<not> compare (func x) (limit x)
      then find_fp_loop func limit xstop xstep compare max_steps (nsteps + 1) (xstep x)
      else Some (nsteps, x))"

text \<open>
  \<open>find_fp(func, limit, xstart, xstop, xstep, compare, max_steps)\<close>. The first argument
  is the conversion \<open>mpf\<close> at the precision in force, applied once to a limit that is not
  callable.
\<close>

definition find_fp ::
  "('b \<Rightarrow> 'b) \<Rightarrow> ('a \<Rightarrow> 'b) \<Rightarrow> ('a, 'b) limit_arg \<Rightarrow> 'a \<Rightarrow> 'a option \<Rightarrow> ('a \<Rightarrow> 'a)
     \<Rightarrow> ('b \<Rightarrow> 'b \<Rightarrow> bool) \<Rightarrow> int option \<Rightarrow> (int \<times> 'a) option"
where
  "find_fp conv func limit xstart xstop xstep compare max_steps =
     (let limit' =
        (case limit of
           Constant c \<Rightarrow> (let limit_value = conv c in (\<lambda>x. limit_value))
         | Callable l \<Rightarrow> l)
      in find_fp_loop func limit' xstop xstep compare max_steps 0 xstart)"

text \<open>
  \<open>find_limit\<close> and \<open>find_limit_reverse\<close> of \<open>limits.py\<close>. Both build the comparison
  \<open>compare\<close> from \<open>nulp\<close> and then pass \<open>eq\<close> (\<open>ne\<close>) to \<open>find_fp\<close>. The format lookup,
  and the defaults of \<open>xstart\<close> and \<open>xstop\<close>, are evaluated before the \<open>with\<close> block,
  at the caller's precision.
\<close>

definition find_limit ::
  "'v mpmath \<Rightarrow> ('v \<Rightarrow> 'v) \<Rightarrow> ('v, 'v) limit_arg \<Rightarrow> 'v option \<Rightarrow> 'v option \<Rightarrow> int \<Rightarrow> int option
     \<Rightarrow> (error + int \<times> 'v) prec_comp"
where
  "find_limit M func limit xstart xstop nulp p mp_prec =
     (case ieee_format p mp_prec of
        Inl e \<Rightarrow> Some (Inl e, mp_prec)
      | Inr fmt \<Rightarrow>
          (let xstart' = (case xstart of None \<Rightarrow> mp_one M | Some x \<Rightarrow> x);
               xstop' = (case xstop of None \<Rightarrow> min_value M mp_prec fmt True | Some x \<Rightarrow> x)
           in workprec (prec_or p mp_prec)
                (\<lambda>w. let xstep = (\<lambda>x. mp_div M w x (two M));
                         compare =
                           (if nulp \<noteq> 0
                            then (\<lambda>fx lx. mp_le M (mp_abs M w (mp_sub M w fx lx)) (ulp M fmt fx w))
                            else (=))
                     in map_option (\<lambda>r. (Inr r, w))
                          (find_fp (mpf M w) func limit xstart' (Some xstop') xstep (=)
                             (Some \<bar>min_exp fmt True\<bar>)))
                mp_prec))"

definition find_limit_reverse ::
  "'v mpmath \<Rightarrow> ('v \<Rightarrow> 'v) \<Rightarrow> ('v, 'v) limit_arg \<Rightarrow> 'v option \<Rightarrow> 'v option \<Rightarrow> int \<Rightarrow> int option
     \<Rightarrow> (error + int \<times> 'v) prec_comp"
where
  "find_limit_reverse M func limit xstart xstop nulp p mp_prec =
     (case ieee_format p mp_prec of
        Inl e \<Rightarrow> Some (Inl e, mp_prec)
      | Inr fmt \<Rightarrow>
          (let xstart' = (case xstart of None \<Rightarrow> min_value M mp_prec fmt True | Some x \<Rightarrow> x);
               xstop' = (case xstop of None \<Rightarrow> one M | Some x \<Rightarrow> x)
           in workprec (prec_or p mp_prec)
                (\<lambda>w. let xstep = (\<lambda>x. mp_mul M w x (two M));
                         compare =
                           (if nulp \<noteq> 0
                            then (\<lambda>fx lx. mp_gt M (mp_abs M w (mp_sub M w fx lx)) (ulp M fmt fx w))
                            else (\<noteq>))
                     in map_option
                          (\<lambda>(steps, v). (Inr (\<bar>min_exp fmt True\<bar> - steps + 1, mp_div M w v (two M)), w))
                          (find_fp (mpf M w) func limit xstart' (Some xstop') xstep (\<noteq>)
                             (Some \<bar>min_exp fmt True\<bar>)))
                mp_prec))"

section \<open>The two-phase search (fp/limits.py)\<close>

text \<open>\<open>find_fp_fast\<close>: the same loop and the same prologue as \<open>find_fp\<close> of \<open>limits.py\<close>.\<close>

partial_function (option) find_fp_fast_loop ::
  "('a \<Rightarrow> 'b) \<Rightarrow> ('a \<Rightarrow> 'b) \<Rightarrow> 'a option \<Rightarrow> ('a \<Rightarrow> 'a) \<Rightarrow> ('b \<Rightarrow> 'b \<Rightarrow> bool) \<Rightarrow> int option
     \<Rightarrow> int \<Rightarrow> 'a \<Rightarrow> (int \<times> 'a) option"
where
  "find_fp_fast_loop func limit xstop xstep compare max_steps nsteps x =
     (if (xstop = None \<or> Some x \<noteq> xstop)
         \<and> (max_steps = None \<or> Some nsteps \<noteq> max_steps)
         \<and> \<not> compare (func x) (limit x)
      then find_fp_fast_loop func limit xstop xstep compare max_steps (nsteps + 1) (xstep x)
      else Some (nsteps, x))"

definition find_fp_fast ::
  "('b \<Rightarrow> 'b) \<Rightarrow> ('a \<Rightarrow> 'b) \<Rightarrow> ('a, 'b) limit_arg \<Rightarrow> 'a \<Rightarrow> 'a option \<Rightarrow> ('a \<Rightarrow> 'a)
     \<Rightarrow> ('b \<Rightarrow> 'b \<Rightarrow> bool) \<Rightarrow> int option \<Rightarrow> (int \<times> 'a) option"
where
  "find_fp_fast conv func limit xstart xstop xstep compare max_steps =
     (let limit' =
        (case limit of
           Constant c \<Rightarrow> (let limit_value = conv c in (\<lambda>x. limit_value))
         | Callable l \<Rightarrow> l)
      in find_fp_fast_loop func limit' xstop xstep compare max_steps 0 xstart)"

text \<open>
  The names bound at the top level of \<open>fp/limits.py\<close>: its imports (\<open>mp\<close>, \<open>mpf\<close>,
  \<open>workprec\<close>, \<open>eq\<close>, \<open>ne\<close>, \<open>zero\<close>, \<open>one\<close>, \<open>two\<close>, \<open>ieee_format\<close>) and the functions
  it defines. A call \<open>name(...)\<close> with the seven arguments of the coarse search looks the
  name up there (none of the searches' names is a Python builtin): a name that is not bound
  is a \<open>NameError\<close>, the one bound to the coarse search gives that function, and any other
  bound object does not accept the call.
\<close>

definition fp_limits_names :: "string list" where
  "fp_limits_names =
     [''mp'', ''mpf'', ''workprec'', ''eq'', ''ne'', ''zero'', ''one'', ''two'', ''ieee_format'',
      ''find_fp_fast'', ''find_limit_fast'', ''find_limit_reverse_fast'', ''bisect_limit'',
      ''find_limit'', ''find_limit_reverse'']"

definition resolve_search ::
  "string \<Rightarrow> error +
     (('b \<Rightarrow> 'b) \<Rightarrow> ('a \<Rightarrow> 'b) \<Rightarrow> ('a, 'b) limit_arg \<Rightarrow> 'a \<Rightarrow> 'a option \<Rightarrow> ('a \<Rightarrow> 'a)
        \<Rightarrow> ('b \<Rightarrow> 'b \<Rightarrow> bool) \<Rightarrow> int option \<Rightarrow> (int \<times> 'a) option)"
where
  "resolve_search name =
     (if name \<in> set fp_limits_names
      then (if name = ''find_fp_fast'' then Inr find_fp_fast else Inl TypeError)
      else Inl (NameError name))"

text \<open>
  \<open>find_limit_fast\<close> and \<open>find_limit_reverse_fast\<close>: as in \<open>limits.py\<close>, but the
  comparison built from \<open>nulp\<close> is the one passed on, and the coarse search is called by
  the name \<open>find_fp\<close>.
\<close>

definition find_limit_fast ::
  "'v mpmath \<Rightarrow> ('v \<Rightarrow> 'v) \<Rightarrow> ('v, 'v) limit_arg \<Rightarrow> 'v option \<Rightarrow> 'v option \<Rightarrow> int \<Rightarrow> int option
     \<Rightarrow> (error + int \<times> 'v) prec_comp"
where
  "find_limit_fast M func limit xstart xstop nulp p mp_prec =
     (case ieee_format p mp_prec of
        Inl e \<Rightarrow> Some (Inl e, mp_prec)
      | Inr fmt \<Rightarrow>
          (let xstart' = (case xstart of None \<Rightarrow> mp_one M | Some x \<Rightarrow> x);
               xstop' = (case xstop of None \<Rightarrow> min_value M mp_prec fmt True | Some x \<Rightarrow> x)
           in workprec (prec_or p mp_prec)
                (\<lambda>w. let xstep = (\<lambda>x. mp_div M w x (two M));
                         compare =
                           (if nulp \<noteq> 0
                            then (\<lambda>fx lx. mp_le M (mp_abs M w (mp_sub M w fx lx)) (ulp M fmt fx w))
                            else (=))
                     in case resolve_search ''find_fp'' of
                          Inl e \<Rightarrow> Some (Inl e, w)
                        | Inr search \<Rightarrow>
                            map_option (\<lambda>r. (Inr r, w))
                              (search (mpf M w) func limit xstart' (Some xstop') xstep compare
                                 (Some \<bar>min_exp fmt True\<bar>)))
                mp_prec))"

definition find_limit_reverse_fast ::
  "'v mpmath \<Rightarrow> ('v \<Rightarrow> 'v) \<Rightarrow> ('v, 'v) limit_arg \<Rightarrow> 'v option \<Rightarrow> 'v option \<Rightarrow> int \<Rightarrow> int option
     \<Rightarrow> (error + int \<times> 'v) prec_comp"
where
  "find_limit_reverse_fast M func limit xstart xstop nulp p mp_prec =
     (case ieee_format p mp_prec of
        Inl e \<Rightarrow> Some (Inl e, mp_prec)
      | Inr fmt \<Rightarrow>
          (let xstart' = (case xstart of None \<Rightarrow> min_value M mp_prec fmt True | Some x \<Rightarrow> x);
               xstop' = (case xstop of None \<Rightarrow> one M | Some x \<Rightarrow> x)
           in workprec (prec_or p mp_prec)
                (\<lambda>w. let xstep = (\<lambda>x. mp_mul M w x (two M));
                         compare =
                           (if nulp \<noteq> 0
                            then (\<lambda>fx lx. mp_gt M (mp_abs M w (mp_sub M w fx lx)) (ulp M fmt fx w))
                            else (\<noteq>))
                     in case resolve_search ''find_fp'' of
                          Inl e \<Rightarrow> Some (Inl e, w)
                        | Inr search \<Rightarrow>
                            map_option
                              (\<lambda>(steps, v).
                                 (Inr (\<bar>min_exp fmt True\<bar> - steps + 1, mp_div M w v (two M)), w))
                              (search (mpf M w) func limit xstart' (Some xstop') xstep compare
                                 (Some \<bar>min_exp fmt True\<bar>)))
                mp_prec))"

text \<open>
  The loop of \<open>bisect_limit\<close> at working precision \<open>w\<close>, with the loop variables \<open>x\<close>,
  \<open>last_x\<close> (initially \<open>None\<close>), the bracket and \<open>nsteps\<close>. The body calls \<open>limit(x)\<close>,
  so a limit that is not callable raises \<open>TypeError\<close> in the first round. The loop has no
  bound of its own: the result is optional.
\<close>

partial_function (option) bisect_loop ::
  "'v mpmath \<Rightarrow> int \<Rightarrow> ('v \<Rightarrow> 'v \<Rightarrow> bool) \<Rightarrow> ('v \<Rightarrow> 'v) \<Rightarrow> ('v, 'v) limit_arg
     \<Rightarrow> 'v \<Rightarrow> 'v option \<Rightarrow> 'v \<Rightarrow> 'v \<Rightarrow> int \<Rightarrow> (error + int \<times> 'v) option"
where
  "bisect_loop M w compare func limit x last_x lower_limit upper_limit nsteps =
     (if Some x \<noteq> last_x \<and> lower_limit \<noteq> upper_limit
      then (case limit of
              Constant c \<Rightarrow> Some (Inl TypeError)
            | Callable l \<Rightarrow>
                (if compare (func x) (l x)
                 then bisect_loop M w compare func limit
                        (mp_div M w (mp_add M w upper_limit x) (mp_of_int M 2))
                        (Some x) x upper_limit (nsteps + 1)
                 else bisect_loop M w compare func limit
                        (mp_div M w (mp_add M w x lower_limit) (mp_of_int M 2))
                        (Some x) lower_limit x (nsteps + 1)))
      else Some (Inr (nsteps, lower_limit)))"

definition bisect_limit ::
  "'v mpmath \<Rightarrow> ('v \<Rightarrow> 'v) \<Rightarrow> ('v, 'v) limit_arg \<Rightarrow> 'v \<Rightarrow> 'v option \<Rightarrow> int \<Rightarrow> int option
     \<Rightarrow> (error + int \<times> 'v) prec_comp"
where
  "bisect_limit M func limit lower_limit upper_limit nulp p mp_prec =
     (case ieee_format p mp_prec of
        Inl e \<Rightarrow> Some (Inl e, mp_prec)
      | Inr fmt \<Rightarrow>
          (let upper_limit' =
                 (case upper_limit of
                    None \<Rightarrow> mp_mul M mp_prec (mp_of_int M 2) lower_limit
                  | Some u \<Rightarrow> u)
           in workprec (prec_or p mp_prec)
                (\<lambda>w. let compare =
                           (if nulp \<noteq> 0
                            then (\<lambda>fx lx. mp_gt M (mp_abs M w (mp_sub M w fx lx)) (ulp M fmt fx w))
                            else (=))
                     in map_option (\<lambda>r. (r, w))
                          (bisect_loop M w compare func limit lower_limit None lower_limit
                             upper_limit' 0))
                mp_prec))"

text \<open>
  \<open>find_limit\<close> and \<open>find_limit_reverse\<close> of \<open>fp/limits.py\<close> (the prefix tells them from
  the functions of the same name in \<open>limits.py\<close>): the coarse search, called by the name
  \<open>find_fp\<close>, then \<open>bisect_limit\<close> on the bracket it found, both inside the \<open>with\<close>
  block; the result is \<open>(limit, n_min, steps)\<close>.
\<close>

definition fp_find_limit ::
  "'v mpmath \<Rightarrow> ('v \<Rightarrow> 'v) \<Rightarrow> ('v, 'v) limit_arg \<Rightarrow> 'v option \<Rightarrow> 'v option \<Rightarrow> int \<Rightarrow> int option
     \<Rightarrow> (error + 'v \<times> int \<times> int) prec_comp"
where
  "fp_find_limit M func limit xstart xstop nulp p mp_prec =
     (case ieee_format p mp_prec of
        Inl e \<Rightarrow> Some (Inl e, mp_prec)
      | Inr fmt \<Rightarrow>
          (let xstart' = (case xstart of None \<Rightarrow> mp_one M | Some x \<Rightarrow> x);
               xstop' = (case xstop of None \<Rightarrow> min_value M mp_prec fmt True | Some x \<Rightarrow> x)
           in workprec (prec_or p mp_prec)
                (\<lambda>w. let xstep = (\<lambda>x. mp_div M w x (two M));
                         compare =
                           (if nulp \<noteq> 0
                            then (\<lambda>fx lx. mp_le M (mp_abs M w (mp_sub M w fx lx)) (ulp M fmt fx w))
                            else (=))
                     in case resolve_search ''find_fp'' of
                          Inl e \<Rightarrow> Some (Inl e, w)
                        | Inr search \<Rightarrow>
                            (case search (mpf M w) func limit xstart' (Some xstop') xstep compare
                                    (Some \<bar>min_exp fmt True\<bar>) of
                               None \<Rightarrow> None
                             | Some (n_min, x_n) \<Rightarrow>
                                 (case bisect_limit M func limit x_n
                                         (Some (mp_mul M w x_n (mp_of_int M 2))) nulp p w of
                                    None \<Rightarrow> None
                                  | Some (Inl e, w') \<Rightarrow> Some (Inl e, w')
                                  | Some (Inr (steps, boundary), w') \<Rightarrow>
                                      Some (Inr (boundary, n_min, steps), w'))))
                mp_prec))"

definition fp_find_limit_reverse ::
  "'v mpmath \<Rightarrow> ('v \<Rightarrow> 'v) \<Rightarrow> ('v, 'v) limit_arg \<Rightarrow> 'v option \<Rightarrow> 'v option \<Rightarrow> int \<Rightarrow> int option
     \<Rightarrow> (error + 'v \<times> int \<times> int) prec_comp"
where
  "fp_find_limit_reverse M func limit xstart xstop nulp p mp_prec =
     (case ieee_format p mp_prec of
        Inl e \<Rightarrow> Some (Inl e, mp_prec)
      | Inr fmt \<Rightarrow>
          (let xstart' = (case xstart of None \<Rightarrow> min_value M mp_prec fmt True | Some x \<Rightarrow> x);
               xstop' = (case xstop of None \<Rightarrow> one M | Some x \<Rightarrow> x)
           in workprec (prec_or p mp_prec)
                (\<lambda>w. let xstep = (\<lambda>x. mp_mul M w x (two M));
                         compare =
                           (if nulp \<noteq> 0
                            then (\<lambda>fx lx. mp_gt M (mp_abs M w (mp_sub M w fx lx)) (ulp M fmt fx w))
                            else (\<noteq>))
                     in case resolve_search ''find_fp'' of
                          Inl e \<Rightarrow> Some (Inl e, w)
                        | Inr search \<Rightarrow>
                            (case search (mpf M w) func limit xstart' (Some xstop') xstep compare
                                    (Some \<bar>min_exp fmt True\<bar>) of
                               None \<Rightarrow> None
                             | Some (n_min, x_n) \<Rightarrow>
                                 (let n_min' = \<bar>min_exp fmt True\<bar> - n_min + 1
                                  in case bisect_limit M func limit (mp_div M w x_n (two M))
                                            (Some x_n) nulp p w of
                                       None \<Rightarrow> None
                                     | Some (Inl e, w') \<Rightarrow> Some (Inl e, w')
                                     | Some (Inr (steps, boundary), w') \<Rightarrow>
                                         Some (Inr (boundary, n_min', steps), w'))))
                mp_prec))"

section \<open>An exact instance of the arithmetic\<close>

text \<open>
  To run the definitions on concrete inputs the arithmetic is instantiated by the
  numbers mpmath approximates: the reals, extended by the special values \<open>+inf\<close>, \<open>-inf\<close>
  and \<open>nan\<close> of mpmath, with every operation exact (the precision argument is ignored).
  On the special values the operations follow mpmath: \<open>log(0) = -inf\<close>,
  \<open>floor(-inf) = -inf\<close>, \<open>-inf + 1 = -inf\<close>, \<open>exp(-inf) = 0\<close>, \<open>inf - inf = nan\<close>,
  \<open>0 * inf = nan\<close>, and every comparison with \<open>nan\<close> is false. Where mpmath raises
  (division by zero) or leaves the reals (the logarithm of a negative number) the
  instance gives \<open>nan\<close>.
\<close>

datatype ext = Fin real | PInf | NInf | NaN

fun ext_sgn :: "ext \<Rightarrow> int" where
  "ext_sgn (Fin a) = (if 0 < a then 1 else if a < 0 then - 1 else 0)"
| "ext_sgn PInf = 1"
| "ext_sgn NInf = - 1"
| "ext_sgn NaN = 0"

definition ext_of_sgn :: "int \<Rightarrow> ext" where
  "ext_of_sgn s = (if 0 < s then PInf else if s < 0 then NInf else NaN)"

fun ext_neg :: "ext \<Rightarrow> ext" where
  "ext_neg (Fin a) = Fin (- a)"
| "ext_neg PInf = NInf"
| "ext_neg NInf = PInf"
| "ext_neg NaN = NaN"

fun ext_add :: "ext \<Rightarrow> ext \<Rightarrow> ext" where
  "ext_add NaN y = NaN"
| "ext_add x NaN = NaN"
| "ext_add (Fin a) (Fin b) = Fin (a + b)"
| "ext_add PInf NInf = NaN"
| "ext_add NInf PInf = NaN"
| "ext_add (Fin a) y = y"
| "ext_add x y = x"

fun ext_mul :: "ext \<Rightarrow> ext \<Rightarrow> ext" where
  "ext_mul NaN y = NaN"
| "ext_mul x NaN = NaN"
| "ext_mul (Fin a) (Fin b) = Fin (a * b)"
| "ext_mul x y = ext_of_sgn (ext_sgn x * ext_sgn y)"

fun ext_div :: "ext \<Rightarrow> ext \<Rightarrow> ext" where
  "ext_div NaN y = NaN"
| "ext_div x NaN = NaN"
| "ext_div (Fin a) (Fin b) = (if b = 0 then NaN else Fin (a / b))"
| "ext_div (Fin a) y = Fin 0"
| "ext_div x (Fin b) = ext_of_sgn (ext_sgn x * ext_sgn (Fin b))"
| "ext_div x y = NaN"

fun ext_abs :: "ext \<Rightarrow> ext" where
  "ext_abs (Fin a) = Fin \<bar>a\<bar>"
| "ext_abs PInf = PInf"
| "ext_abs NInf = PInf"
| "ext_abs NaN = NaN"

fun ext_le :: "ext \<Rightarrow> ext \<Rightarrow> bool" where
  "ext_le NaN y = False"
| "ext_le x NaN = False"
| "ext_le (Fin a) (Fin b) = (a \<le> b)"
| "ext_le NInf y = True"
| "ext_le x PInf = True"
| "ext_le x y = False"

fun ext_gt :: "ext \<Rightarrow> ext \<Rightarrow> bool" where
  "ext_gt NaN y = False"
| "ext_gt x NaN = False"
| "ext_gt x y = (\<not> ext_le x y)"

fun ext_ln :: "ext \<Rightarrow> ext" where
  "ext_ln (Fin a) = (if a = 0 then NInf else if 0 < a then Fin (ln a) else NaN)"
| "ext_ln PInf = PInf"
| "ext_ln NInf = NaN"
| "ext_ln NaN = NaN"

fun ext_exp :: "ext \<Rightarrow> ext" where
  "ext_exp (Fin a) = Fin (exp a)"
| "ext_exp PInf = PInf"
| "ext_exp NInf = Fin 0"
| "ext_exp NaN = NaN"

fun ext_floor :: "ext \<Rightarrow> ext" where
  "ext_floor (Fin a) = Fin (of_int \<lfloor>a\<rfloor>)"
| "ext_floor x = x"

text \<open>
  \<open>log(x, b)\<close> is \<open>ln(x) / ln(b)\<close>. A power with finite operands and a positive base is
  the real power; every other power goes through mpmath's general formula
  \<open>exp(y * ln(x))\<close>.
\<close>

definition ext_log :: "ext \<Rightarrow> ext \<Rightarrow> ext" where
  "ext_log x b = ext_div (ext_ln x) (ext_ln b)"

fun ext_power :: "ext \<Rightarrow> ext \<Rightarrow> ext" where
  "ext_power (Fin a) (Fin b) = (if 0 < a then Fin (a powr b) else ext_exp (ext_mul (Fin b) (ext_ln (Fin a))))"
| "ext_power x y = ext_exp (ext_mul y (ext_ln x))"

definition mp_exact :: "ext mpmath" where
  "mp_exact =
     \<lparr>import_prec = 53,
      mp_zero = Fin 0,
      mp_one = Fin 1,
      mp_of_int = (\<lambda>n. Fin (of_int n)),
      mpf = (\<lambda>p x. x),
      mp_add = (\<lambda>p. ext_add),
      mp_sub = (\<lambda>p x y. ext_add x (ext_neg y)),
      mp_mul = (\<lambda>p. ext_mul),
      mp_div = (\<lambda>p. ext_div),
      mp_abs = (\<lambda>p. ext_abs),
      mp_le = ext_le,
      mp_gt = ext_gt,
      mp_log = (\<lambda>p. ext_log),
      mp_floor = (\<lambda>p. ext_floor),
      mp_power = (\<lambda>p. ext_power)\<rparr>"

section \<open>Notions used to state the properties\<close>

text \<open>
  The function a \<open>limit\<close> argument stands for: a callable is itself, a value is the
  constant function returning the value as converted by \<open>mpf\<close>.
\<close>

definition as_function :: "('b \<Rightarrow> 'b) \<Rightarrow> ('a, 'b) limit_arg \<Rightarrow> 'a \<Rightarrow> 'b" where
  "as_function conv limit = (case limit of Constant c \<Rightarrow> (\<lambda>x. conv c) | Callable l \<Rightarrow> l)"

section \<open>The format model: exponents and lookup\<close>

lemma registered_cases:
  "fmt \<in> set registered \<longleftrightarrow>
     fmt = ieee_float \<or> fmt = ieee_double \<or> fmt = intel_extended \<or> fmt = ieee_quad"
  by (auto simp: registered_def)

lemma ieee_formats_eq:
  "ieee_formats k =
     (if k = 113 then Some ieee_quad else if k = 63 then Some intel_extended
      else if k = 53 then Some ieee_double else if k = 24 then Some ieee_float else None)"
  by (simp add: ieee_formats_def registered_def ieee_float_def ieee_double_def
      intel_extended_def ieee_quad_def mk_IEEEFormat_def)

text \<open>
  Claim C8. For every registered format the bias is \<open>2 ^ (exp - 1) - 1\<close>, \<open>max_exp\<close>
  is the bias, \<open>min_exp\<close> without denormals is \<open>-(bias - 1)\<close> and with denormals
  \<open>-(bias - 1) - (prec - 1)\<close>, which is not above the former, and \<open>min_value\<close> and
  \<open>max_value\<close> are mpmath's power of 2 to the minimum and to the maximum exponent.
\<close>

theorem format_exponents:
  assumes "fmt \<in> set registered"
  shows "bias fmt = 2 ^ nat (exp_bits fmt - 1) - 1
       \<and> max_exp fmt = bias fmt
       \<and> min_exp fmt False = - (bias fmt - 1)
       \<and> min_exp fmt True = - (bias fmt - 1) - (prec fmt - 1)
       \<and> min_exp fmt True \<le> min_exp fmt False
       \<and> min_value M p fmt denorm = mp_power M p (mp_of_int M 2) (mp_of_int M (min_exp fmt denorm))
       \<and> max_value M p fmt = mp_power M p (mp_of_int M 2) (mp_of_int M (max_exp fmt))"
  using assms
  by (auto simp: registered_cases ieee_float_def ieee_double_def intel_extended_def
      ieee_quad_def mk_IEEEFormat_def min_exp_def max_exp_def min_value_def max_value_def)

lemma workfloat_matches_eq:
  "workfloat_matches b =
     (if b = 32 \<or> b = 4 then [ieee_float] else if b = 64 \<or> b = 8 then [ieee_double]
      else if b = 80 \<or> b = 10 then [intel_extended] else if b = 128 \<or> b = 16 then [ieee_quad]
      else [])"
  by (simp add: workfloat_matches_def registered_def ieee_float_def ieee_double_def
      intel_extended_def ieee_quad_def mk_IEEEFormat_def)

lemma workfloat_single_match: "length (workfloat_matches b) \<le> 1"
  by (simp add: workfloat_matches_eq)

text \<open>
  Claim C9. \<open>ieee_format\<close> with an explicit precision among 24, 53, 63, 113 returns the
  one registered format of that precision, and raises \<open>KeyError\<close> for every other
  nonzero precision. \<open>workfloat\<close> raises \<open>KeyError\<close> for every width outside
  4, 8, 10, 16, 32, 64, 80, 128; for a width among them exactly one format matches and
  the block runs under that format's precision, so that the outcome is the block's.
\<close>

theorem format_lookup:
  "(p \<in> {24, 53, 63, 113} \<longrightarrow>
      (\<exists>fmt. ieee_format (Some p) mp_prec = Inr fmt \<and> fmt \<in> set registered \<and> prec fmt = p
         \<and> (\<forall>g \<in> set registered. prec g = p \<longrightarrow> g = fmt)))
   \<and> (p \<notin> {24, 53, 63, 113} \<and> p \<noteq> 0 \<longrightarrow> ieee_format (Some p) mp_prec = Inl (KeyError p))
   \<and> (b \<notin> {4, 8, 10, 16, 32, 64, 80, 128} \<longrightarrow>
        workfloat b body mp_prec = Some (Inl (KeyError b), mp_prec))
   \<and> (b \<in> {4, 8, 10, 16, 32, 64, 80, 128} \<longrightarrow>
        (\<exists>fmt. workfloat_matches b = [fmt] \<and> (b = bits fmt \<or> b = bits fmt div 8)
           \<and> workfloat b body mp_prec = workprec (prec fmt) body mp_prec))"
proof (intro conjI impI)
  assume "p \<in> {24, 53, 63, 113}"
  then show "\<exists>fmt. ieee_format (Some p) mp_prec = Inr fmt \<and> fmt \<in> set registered \<and> prec fmt = p
         \<and> (\<forall>g \<in> set registered. prec g = p \<longrightarrow> g = fmt)"
    by (auto simp: ieee_format_def prec_or_def ieee_formats_eq registered_cases
        ieee_float_def ieee_double_def intel_extended_def ieee_quad_def mk_IEEEFormat_def)
next
  assume "p \<notin> {24, 53, 63, 113} \<and> p \<noteq> 0"
  then show "ieee_format (Some p) mp_prec = Inl (KeyError p)"
    by (simp add: ieee_format_def prec_or_def ieee_formats_eq)
next
  assume "b \<notin> {4, 8, 10, 16, 32, 64, 80, 128}"
  then show "workfloat b body mp_prec = Some (Inl (KeyError b), mp_prec)"
    by (simp add: workfloat_def workfloat_matches_eq)
next
  assume "b \<in> {4, 8, 10, 16, 32, 64, 80, 128}"
  then show "\<exists>fmt. workfloat_matches b = [fmt] \<and> (b = bits fmt \<or> b = bits fmt div 8)
           \<and> workfloat b body mp_prec = workprec (prec fmt) body mp_prec"
    by (auto simp: workfloat_def workfloat_matches_eq
        ieee_float_def ieee_double_def intel_extended_def ieee_quad_def mk_IEEEFormat_def)
qed

section \<open>The coarse search: the first stop\<close>

lemma search_loop_stops:
  fixes f :: "int \<Rightarrow> 'a \<Rightarrow> (int \<times> 'a) option"
  assumes unfold: "\<And>n x. f n x = (if cont n x then f (n + 1) (xstep x) else Some (n, x))"
    and stop: "\<And>x. \<not> cont m x"
    and le: "n0 \<le> m"
  shows "\<exists>k. f n0 x0 = Some (n0 + int k, (xstep ^^ k) x0) \<and> n0 + int k \<le> m
           \<and> \<not> cont (n0 + int k) ((xstep ^^ k) x0)
           \<and> (\<forall>j<k. cont (n0 + int j) ((xstep ^^ j) x0))"
  using le
proof (induction "nat (m - n0)" arbitrary: n0 x0)
  case 0
  then have "n0 = m" by simp
  then have "\<not> cont n0 x0" using stop by simp
  then have "f n0 x0 = Some (n0, x0)" using unfold[of n0 x0] by simp
  with \<open>\<not> cont n0 x0\<close> \<open>n0 \<le> m\<close> show ?case
    by (intro exI[of _ 0]) simp
next
  case (Suc d)
  show ?case
  proof (cases "cont n0 x0")
    case False
    then have "f n0 x0 = Some (n0, x0)" using unfold[of n0 x0] by simp
    with False \<open>n0 \<le> m\<close> show ?thesis
      by (intro exI[of _ 0]) simp
  next
    case True
    from Suc.hyps(2) have d: "d = nat (m - (n0 + 1))" and le': "n0 + 1 \<le> m" by auto
    from Suc.hyps(1)[OF d le', of "xstep x0"]
    obtain k where k: "f (n0 + 1) (xstep x0) = Some (n0 + 1 + int k, (xstep ^^ k) (xstep x0))"
      "n0 + 1 + int k \<le> m" "\<not> cont (n0 + 1 + int k) ((xstep ^^ k) (xstep x0))"
      "\<forall>j<k. cont (n0 + 1 + int j) ((xstep ^^ j) (xstep x0))"
      by blast
    have step: "f n0 x0 = f (n0 + 1) (xstep x0)" using unfold[of n0 x0] True by simp
    have pow: "\<And>j. (xstep ^^ j) (xstep x0) = (xstep ^^ Suc j) x0"
      by (simp add: funpow_swap1)
    have "\<forall>j<Suc k. cont (n0 + int j) ((xstep ^^ j) x0)"
    proof (intro allI impI)
      fix j assume "j < Suc k"
      show "cont (n0 + int j) ((xstep ^^ j) x0)"
      proof (cases j)
        case 0
        then show ?thesis using True by simp
      next
        case (Suc i)
        with \<open>j < Suc k\<close> have "i < k" by simp
        with k(4) have "cont (n0 + 1 + int i) ((xstep ^^ i) (xstep x0))" by blast
        then show ?thesis using Suc pow[of i] by (simp add: add.assoc)
      qed
    qed
    moreover have "f n0 x0 = Some (n0 + int (Suc k), (xstep ^^ Suc k) x0)"
      using step k(1) pow[of k] by (simp add: add.assoc)
    moreover have "n0 + int (Suc k) \<le> m" using k(2) by simp
    moreover have "\<not> cont (n0 + int (Suc k)) ((xstep ^^ Suc k) x0)"
      using k(3) pow[of k] by (simp add: add.assoc)
    ultimately show ?thesis by (intro exI[of _ "Suc k"]) blast
  qed
qed

lemma find_fp_as_function:
  "find_fp conv func limit xstart xstop xstep compare ms =
     find_fp_loop func (as_function conv limit) xstop xstep compare ms 0 xstart"
  by (cases limit) (simp_all add: find_fp_def as_function_def)

lemma find_fp_fast_as_function:
  "find_fp_fast conv func limit xstart xstop xstep compare ms =
     find_fp_fast_loop func (as_function conv limit) xstop xstep compare ms 0 xstart"
  by (cases limit) (simp_all add: find_fp_fast_def as_function_def)

lemma find_fp_loop_least:
  assumes "0 \<le> m"
  shows "\<exists>n. find_fp_loop func lfun xstop xstep compare (Some m) 0 xstart
               = Some (int n, (xstep ^^ n) xstart)
           \<and> int n \<le> m
           \<and> (Some ((xstep ^^ n) xstart) = xstop \<or> int n = m
                \<or> compare (func ((xstep ^^ n) xstart)) (lfun ((xstep ^^ n) xstart)))
           \<and> (\<forall>k<n. Some ((xstep ^^ k) xstart) \<noteq> xstop \<and> int k \<noteq> m
                  \<and> \<not> compare (func ((xstep ^^ k) xstart)) (lfun ((xstep ^^ k) xstart)))"
proof -
  let ?cont = "\<lambda>n x. (xstop = None \<or> Some x \<noteq> xstop) \<and> (Some m = None \<or> Some n \<noteq> Some m)
                  \<and> \<not> compare (func x) (lfun x)"
  have "\<exists>k. find_fp_loop func lfun xstop xstep compare (Some m) 0 xstart
               = Some (0 + int k, (xstep ^^ k) xstart) \<and> 0 + int k \<le> m
           \<and> \<not> ?cont (0 + int k) ((xstep ^^ k) xstart)
           \<and> (\<forall>j<k. ?cont (0 + int j) ((xstep ^^ j) xstart))"
    by (rule search_loop_stops[where cont = ?cont and m = m])
       (subst find_fp_loop.simps, simp, simp, rule assms)
  then obtain k where k: "find_fp_loop func lfun xstop xstep compare (Some m) 0 xstart
               = Some (int k, (xstep ^^ k) xstart)" "int k \<le> m"
      "\<not> ?cont (int k) ((xstep ^^ k) xstart)" "\<forall>j<k. ?cont (int j) ((xstep ^^ j) xstart)"
    by auto
  show ?thesis
    by (rule exI[of _ k]) (use k in auto)
qed

lemma find_fp_fast_loop_least:
  assumes "0 \<le> m"
  shows "\<exists>n. find_fp_fast_loop func lfun xstop xstep compare (Some m) 0 xstart
               = Some (int n, (xstep ^^ n) xstart)
           \<and> int n \<le> m
           \<and> (Some ((xstep ^^ n) xstart) = xstop \<or> int n = m
                \<or> compare (func ((xstep ^^ n) xstart)) (lfun ((xstep ^^ n) xstart)))
           \<and> (\<forall>k<n. Some ((xstep ^^ k) xstart) \<noteq> xstop \<and> int k \<noteq> m
                  \<and> \<not> compare (func ((xstep ^^ k) xstart)) (lfun ((xstep ^^ k) xstart)))"
proof -
  let ?cont = "\<lambda>n x. (xstop = None \<or> Some x \<noteq> xstop) \<and> (Some m = None \<or> Some n \<noteq> Some m)
                  \<and> \<not> compare (func x) (lfun x)"
  have "\<exists>k. find_fp_fast_loop func lfun xstop xstep compare (Some m) 0 xstart
               = Some (0 + int k, (xstep ^^ k) xstart) \<and> 0 + int k \<le> m
           \<and> \<not> ?cont (0 + int k) ((xstep ^^ k) xstart)
           \<and> (\<forall>j<k. ?cont (0 + int j) ((xstep ^^ j) xstart))"
    by (rule search_loop_stops[where cont = ?cont and m = m])
       (subst find_fp_fast_loop.simps, simp, simp, rule assms)
  then obtain k where k: "find_fp_fast_loop func lfun xstop xstep compare (Some m) 0 xstart
               = Some (int k, (xstep ^^ k) xstart)" "int k \<le> m"
      "\<not> ?cont (int k) ((xstep ^^ k) xstart)" "\<forall>j<k. ?cont (int j) ((xstep ^^ j) xstart)"
    by auto
  show ?thesis
    by (rule exI[of _ k]) (use k in auto)
qed

text \<open>
  Claim C1. With a bound \<open>m\<close> that is not negative, \<open>find_fp\<close> (and \<open>find_fp_fast\<close>)
  returns the pair \<open>(n, x)\<close> where \<open>x\<close> is \<open>xstep\<close> applied \<open>n\<close> times to \<open>xstart\<close>,
  one of the three stop conditions holds at \<open>n\<close> (\<open>x\<close> is \<open>xstop\<close>, \<open>n\<close> is the bound,
  or the comparison of \<open>func(x)\<close> with \<open>limit(x)\<close> holds), and none of them holds at any
  earlier count; no outcome is an error. A limit that is a value is searched as the
  constant function returning it.
\<close>

theorem find_fp_least_stop:
  assumes "0 \<le> m"
  shows "(\<exists>n. find_fp conv func limit xstart xstop xstep compare (Some m)
                 = Some (int n, (xstep ^^ n) xstart)
            \<and> (Some ((xstep ^^ n) xstart) = xstop \<or> int n = m
                 \<or> compare (func ((xstep ^^ n) xstart))
                      (as_function conv limit ((xstep ^^ n) xstart)))
            \<and> (\<forall>k<n. Some ((xstep ^^ k) xstart) \<noteq> xstop \<and> int k \<noteq> m
                   \<and> \<not> compare (func ((xstep ^^ k) xstart))
                         (as_function conv limit ((xstep ^^ k) xstart))))
       \<and> (\<exists>n. find_fp_fast conv func limit xstart xstop xstep compare (Some m)
                 = Some (int n, (xstep ^^ n) xstart)
            \<and> (Some ((xstep ^^ n) xstart) = xstop \<or> int n = m
                 \<or> compare (func ((xstep ^^ n) xstart))
                      (as_function conv limit ((xstep ^^ n) xstart)))
            \<and> (\<forall>k<n. Some ((xstep ^^ k) xstart) \<noteq> xstop \<and> int k \<noteq> m
                   \<and> \<not> compare (func ((xstep ^^ k) xstart))
                         (as_function conv limit ((xstep ^^ k) xstart))))
       \<and> as_function conv (Constant c) = (\<lambda>x. conv c)
       \<and> find_fp conv func (Constant c) xstart xstop xstep compare (Some m)
           = find_fp conv func (Callable (\<lambda>x. conv c)) xstart xstop xstep compare (Some m)
       \<and> find_fp_fast conv func (Constant c) xstart xstop xstep compare (Some m)
           = find_fp_fast conv func (Callable (\<lambda>x. conv c)) xstart xstop xstep compare (Some m)"
proof (intro conjI)
  show "\<exists>n. find_fp conv func limit xstart xstop xstep compare (Some m)
                 = Some (int n, (xstep ^^ n) xstart)
            \<and> (Some ((xstep ^^ n) xstart) = xstop \<or> int n = m
                 \<or> compare (func ((xstep ^^ n) xstart))
                      (as_function conv limit ((xstep ^^ n) xstart)))
            \<and> (\<forall>k<n. Some ((xstep ^^ k) xstart) \<noteq> xstop \<and> int k \<noteq> m
                   \<and> \<not> compare (func ((xstep ^^ k) xstart))
                         (as_function conv limit ((xstep ^^ k) xstart)))"
    using find_fp_loop_least[OF assms, of func "as_function conv limit" xstop xstep compare xstart]
    unfolding find_fp_as_function by blast
  show "\<exists>n. find_fp_fast conv func limit xstart xstop xstep compare (Some m)
                 = Some (int n, (xstep ^^ n) xstart)
            \<and> (Some ((xstep ^^ n) xstart) = xstop \<or> int n = m
                 \<or> compare (func ((xstep ^^ n) xstart))
                      (as_function conv limit ((xstep ^^ n) xstart)))
            \<and> (\<forall>k<n. Some ((xstep ^^ k) xstart) \<noteq> xstop \<and> int k \<noteq> m
                   \<and> \<not> compare (func ((xstep ^^ k) xstart))
                         (as_function conv limit ((xstep ^^ k) xstart)))"
    using find_fp_fast_loop_least[OF assms, of func "as_function conv limit" xstop xstep compare xstart]
    unfolding find_fp_fast_as_function by blast
qed (simp_all add: as_function_def find_fp_def find_fp_fast_def)

text \<open>
  The search for the first \<open>x\<close> counting up from 0 with \<open>2 * x = 6\<close>, with sentinel 9
  and bound 5, stops after three steps at 3.
\<close>

theorem find_fp_least_stop_witness:
  "(0::int) \<le> 5
   \<and> (\<exists>n. find_fp (\<lambda>c. c) (\<lambda>x. 2 * x) (Constant 6) (0::nat) (Some 9) Suc (=) (Some 5)
                 = Some (int n, (Suc ^^ n) 0)
            \<and> (Some ((Suc ^^ n) 0) = Some 9 \<or> int n = 5
                 \<or> 2 * (Suc ^^ n) 0 = as_function (\<lambda>c. c) (Constant (6::nat)) ((Suc ^^ n) (0::nat)))
            \<and> (\<forall>k<n. Some ((Suc ^^ k) 0) \<noteq> Some (9::nat) \<and> int k \<noteq> 5
                   \<and> \<not> 2 * (Suc ^^ k) 0 = as_function (\<lambda>c. c) (Constant (6::nat)) ((Suc ^^ k) (0::nat))))
   \<and> find_fp (\<lambda>c. c) (\<lambda>x. 2 * x) (Constant 6) (0::nat) (Some 9) Suc (=) (Some 5) = Some (3, 3)"
proof -
  have h: "(0::int) \<le> 5" by simp
  have run: "find_fp (\<lambda>c. c) (\<lambda>x. 2 * x) (Constant 6) (0::nat) (Some 9) Suc (=) (Some 5) = Some (3, 3)"
    by (simp add: find_fp_def find_fp_loop.simps)
  from find_fp_least_stop[OF h, where conv = "\<lambda>c. c" and func = "\<lambda>x. 2 * x"
      and limit = "Constant 6" and xstart = "0::nat" and xstop = "Some 9" and xstep = Suc
      and compare = "(=)"]
  show ?thesis using run h by blast
qed

section \<open>The searches: termination, precision and errors\<close>

lemma find_fp_returns:
  assumes "0 \<le> m"
  shows "\<exists>n x. find_fp conv func limit xstart xstop xstep compare (Some m) = Some (n, x)
           \<and> 0 \<le> n \<and> n \<le> m"
proof -
  from find_fp_loop_least[OF assms, of func "as_function conv limit" xstop xstep compare xstart]
  obtain k where "find_fp_loop func (as_function conv limit) xstop xstep compare (Some m) 0 xstart
      = Some (int k, (xstep ^^ k) xstart)" "int k \<le> m"
    by blast
  then show ?thesis
    unfolding find_fp_as_function by (intro exI[of _ "int k"] exI[of _ "(xstep ^^ k) xstart"]) simp
qed

lemma resolve_find_fp: "resolve_search ''find_fp'' = Inl (NameError ''find_fp'')"
  by (simp add: resolve_search_def fp_limits_names_def)

lemma find_limit_run:
  assumes "ieee_format p mp_prec = Inr fmt"
  shows "\<exists>n x. find_fp (mpf M (prec_or p mp_prec)) func limit
                 (case xstart of None \<Rightarrow> mp_one M | Some x \<Rightarrow> x)
                 (Some (case xstop of None \<Rightarrow> min_value M mp_prec fmt True | Some x \<Rightarrow> x))
                 (\<lambda>x. mp_div M (prec_or p mp_prec) x (two M)) (=) (Some \<bar>min_exp fmt True\<bar>)
               = Some (n, x)
          \<and> 0 \<le> n \<and> n \<le> \<bar>min_exp fmt True\<bar>
          \<and> find_limit M func limit xstart xstop nulp p mp_prec = Some (Inr (n, x), mp_prec)"
proof -
  have b: "0 \<le> \<bar>min_exp fmt True\<bar>" by simp
  obtain n x where fwd: "find_fp (mpf M (prec_or p mp_prec)) func limit
                 (case xstart of None \<Rightarrow> mp_one M | Some x \<Rightarrow> x)
                 (Some (case xstop of None \<Rightarrow> min_value M mp_prec fmt True | Some x \<Rightarrow> x))
                 (\<lambda>x. mp_div M (prec_or p mp_prec) x (two M)) (=) (Some \<bar>min_exp fmt True\<bar>)
               = Some (n, x)" "0 \<le> n" "n \<le> \<bar>min_exp fmt True\<bar>"
    using find_fp_returns[OF b, where conv = "mpf M (prec_or p mp_prec)" and func = func
        and limit = limit and compare = "(=)"
        and xstep = "\<lambda>x. mp_div M (prec_or p mp_prec) x (two M)"]
    by blast
  have "find_limit M func limit xstart xstop nulp p mp_prec = Some (Inr (n, x), mp_prec)"
    using assms fwd(1) by (simp add: find_limit_def workprec_def Let_def)
  with fwd show ?thesis by blast
qed

lemma find_limit_reverse_run:
  assumes "ieee_format p mp_prec = Inr fmt"
  shows "\<exists>n x. find_fp (mpf M (prec_or p mp_prec)) func limit
                 (case xstart of None \<Rightarrow> min_value M mp_prec fmt True | Some x \<Rightarrow> x)
                 (Some (case xstop of None \<Rightarrow> one M | Some x \<Rightarrow> x))
                 (\<lambda>x. mp_mul M (prec_or p mp_prec) x (two M)) (\<noteq>) (Some \<bar>min_exp fmt True\<bar>)
               = Some (n, x)
          \<and> 0 \<le> n \<and> n \<le> \<bar>min_exp fmt True\<bar>
          \<and> find_limit_reverse M func limit xstart xstop nulp p mp_prec
              = Some (Inr (\<bar>min_exp fmt True\<bar> - n + 1, mp_div M (prec_or p mp_prec) x (two M)),
                      mp_prec)"
proof -
  have b: "0 \<le> \<bar>min_exp fmt True\<bar>" by simp
  obtain n x where bwd: "find_fp (mpf M (prec_or p mp_prec)) func limit
                 (case xstart of None \<Rightarrow> min_value M mp_prec fmt True | Some x \<Rightarrow> x)
                 (Some (case xstop of None \<Rightarrow> one M | Some x \<Rightarrow> x))
                 (\<lambda>x. mp_mul M (prec_or p mp_prec) x (two M)) (\<noteq>) (Some \<bar>min_exp fmt True\<bar>)
               = Some (n, x)" "0 \<le> n" "n \<le> \<bar>min_exp fmt True\<bar>"
    using find_fp_returns[OF b, where conv = "mpf M (prec_or p mp_prec)" and func = func
        and limit = limit and compare = "(\<noteq>)"
        and xstep = "\<lambda>x. mp_mul M (prec_or p mp_prec) x (two M)"]
    by blast
  have "find_limit_reverse M func limit xstart xstop nulp p mp_prec
      = Some (Inr (\<bar>min_exp fmt True\<bar> - n + 1, mp_div M (prec_or p mp_prec) x (two M)), mp_prec)"
    using assms bwd(1) by (simp add: find_limit_reverse_def workprec_def Let_def)
  with bwd show ?thesis by blast
qed

lemma find_limit_lookup_error:
  assumes "ieee_format p mp_prec = Inl e"
  shows "find_limit M func limit xstart xstop nulp p mp_prec = Some (Inl e, mp_prec)"
    and "find_limit_reverse M func limit xstart xstop nulp p mp_prec = Some (Inl e, mp_prec)"
  using assms by (simp_all add: find_limit_def find_limit_reverse_def)

text \<open>
  Claim C4. In \<open>limits.py\<close>, when the format lookup succeeds, the coarse search of
  \<open>find_limit\<close> and of \<open>find_limit_reverse\<close> is \<open>find_fp\<close> called with the bound
  \<open>abs(fmt.min_exp())\<close>; it returns for every candidate function, limit, start, stop and
  \<open>nulp\<close>, and its step count lies between 0 and that bound. When the lookup fails
  there is no search: both functions raise the lookup's error.
\<close>

theorem coarse_search_bounded:
  "case ieee_format p mp_prec of
     Inl e \<Rightarrow>
       find_limit M func limit xstart xstop nulp p mp_prec = Some (Inl e, mp_prec)
       \<and> find_limit_reverse M func limit xstart xstop nulp p mp_prec = Some (Inl e, mp_prec)
   | Inr fmt \<Rightarrow>
       (\<exists>n x. find_fp (mpf M (prec_or p mp_prec)) func limit
                 (case xstart of None \<Rightarrow> mp_one M | Some x \<Rightarrow> x)
                 (Some (case xstop of None \<Rightarrow> min_value M mp_prec fmt True | Some x \<Rightarrow> x))
                 (\<lambda>x. mp_div M (prec_or p mp_prec) x (two M)) (=) (Some \<bar>min_exp fmt True\<bar>)
               = Some (n, x)
          \<and> 0 \<le> n \<and> n \<le> \<bar>min_exp fmt True\<bar>
          \<and> find_limit M func limit xstart xstop nulp p mp_prec = Some (Inr (n, x), mp_prec))
       \<and> (\<exists>n x. find_fp (mpf M (prec_or p mp_prec)) func limit
                 (case xstart of None \<Rightarrow> min_value M mp_prec fmt True | Some x \<Rightarrow> x)
                 (Some (case xstop of None \<Rightarrow> one M | Some x \<Rightarrow> x))
                 (\<lambda>x. mp_mul M (prec_or p mp_prec) x (two M)) (\<noteq>) (Some \<bar>min_exp fmt True\<bar>)
               = Some (n, x)
          \<and> 0 \<le> n \<and> n \<le> \<bar>min_exp fmt True\<bar>
          \<and> find_limit_reverse M func limit xstart xstop nulp p mp_prec
              = Some (Inr (\<bar>min_exp fmt True\<bar> - n + 1, mp_div M (prec_or p mp_prec) x (two M)),
                      mp_prec))"
proof (cases "ieee_format p mp_prec")
  case (Inl e)
  then show ?thesis by (simp add: find_limit_lookup_error)
next
  case (Inr fmt)
  show ?thesis
    unfolding Inr sum.case
    by (rule conjI[OF find_limit_run[OF Inr] find_limit_reverse_run[OF Inr]])
qed

lemma fp_search_fails:
  "find_limit_fast M func limit xstart xstop nulp p mp_prec
     = Some (Inl (case ieee_formats (prec_or p mp_prec) of
                    None \<Rightarrow> KeyError (prec_or p mp_prec)
                  | Some fmt \<Rightarrow> NameError ''find_fp''), mp_prec)"
  "find_limit_reverse_fast M func limit xstart xstop nulp p mp_prec
     = Some (Inl (case ieee_formats (prec_or p mp_prec) of
                    None \<Rightarrow> KeyError (prec_or p mp_prec)
                  | Some fmt \<Rightarrow> NameError ''find_fp''), mp_prec)"
  "fp_find_limit M func limit xstart xstop nulp p mp_prec
     = Some (Inl (case ieee_formats (prec_or p mp_prec) of
                    None \<Rightarrow> KeyError (prec_or p mp_prec)
                  | Some fmt \<Rightarrow> NameError ''find_fp''), mp_prec)"
  "fp_find_limit_reverse M func limit xstart xstop nulp p mp_prec
     = Some (Inl (case ieee_formats (prec_or p mp_prec) of
                    None \<Rightarrow> KeyError (prec_or p mp_prec)
                  | Some fmt \<Rightarrow> NameError ''find_fp''), mp_prec)"
  by (simp_all add: find_limit_fast_def find_limit_reverse_fast_def fp_find_limit_def
      fp_find_limit_reverse_def ieee_format_def resolve_find_fp workprec_def Let_def
      split: option.split)

text \<open>
  Claim C10. Every call of \<open>find_limit\<close> and \<open>find_limit_reverse\<close>, of \<open>limits.py\<close> and
  of \<open>fp/limits.py\<close>, ends, with a result or with an error, and leaves the ambient
  precision at the value it had before the call.
\<close>

theorem precision_restored:
  "(\<exists>r. find_limit M func limit xstart xstop nulp p mp_prec = Some (r, mp_prec))
   \<and> (\<exists>r. find_limit_reverse M func limit xstart xstop nulp p mp_prec = Some (r, mp_prec))
   \<and> (\<exists>r. fp_find_limit M func limit xstart xstop nulp p mp_prec = Some (r, mp_prec))
   \<and> (\<exists>r. fp_find_limit_reverse M func limit xstart xstop nulp p mp_prec = Some (r, mp_prec))"
proof (intro conjI)
  show "\<exists>r. find_limit M func limit xstart xstop nulp p mp_prec = Some (r, mp_prec)"
  proof (cases "ieee_format p mp_prec")
    case (Inl e)
    then show ?thesis by (simp add: find_limit_lookup_error)
  next
    case (Inr fmt)
    from find_limit_run[OF Inr, of M func limit xstart xstop nulp] show ?thesis by blast
  qed
  show "\<exists>r. find_limit_reverse M func limit xstart xstop nulp p mp_prec = Some (r, mp_prec)"
  proof (cases "ieee_format p mp_prec")
    case (Inl e)
    then show ?thesis by (simp add: find_limit_lookup_error)
  next
    case (Inr fmt)
    from find_limit_reverse_run[OF Inr, of M func limit xstart xstop nulp] show ?thesis by blast
  qed
qed (simp_all add: fp_search_fails)

text \<open>
  Claim C5, as amended. Every call of \<open>find_limit_fast\<close>, \<open>find_limit_reverse_fast\<close>,
  \<open>find_limit\<close> and \<open>find_limit_reverse\<close> of \<open>fp/limits.py\<close> fails: with the
  \<open>KeyError\<close> of the format lookup when the effective precision \<open>prec or mp.prec\<close> is
  not one of 24, 53, 63, 113, and with the \<open>NameError\<close> for \<open>find_fp\<close> otherwise.
\<close>

theorem fp_entry_points_fail:
  "find_limit_fast M func limit xstart xstop nulp p mp_prec
     = Some (Inl (case ieee_formats (prec_or p mp_prec) of
                    None \<Rightarrow> KeyError (prec_or p mp_prec)
                  | Some fmt \<Rightarrow> NameError ''find_fp''), mp_prec)
   \<and> find_limit_reverse_fast M func limit xstart xstop nulp p mp_prec
     = Some (Inl (case ieee_formats (prec_or p mp_prec) of
                    None \<Rightarrow> KeyError (prec_or p mp_prec)
                  | Some fmt \<Rightarrow> NameError ''find_fp''), mp_prec)
   \<and> fp_find_limit M func limit xstart xstop nulp p mp_prec
     = Some (Inl (case ieee_formats (prec_or p mp_prec) of
                    None \<Rightarrow> KeyError (prec_or p mp_prec)
                  | Some fmt \<Rightarrow> NameError ''find_fp''), mp_prec)
   \<and> fp_find_limit_reverse M func limit xstart xstop nulp p mp_prec
     = Some (Inl (case ieee_formats (prec_or p mp_prec) of
                    None \<Rightarrow> KeyError (prec_or p mp_prec)
                  | Some fmt \<Rightarrow> NameError ''find_fp''), mp_prec)
   \<and> (ieee_formats (prec_or p mp_prec) = None
        \<longleftrightarrow> prec_or p mp_prec \<notin> {24, 53, 63, 113})"
  by (simp add: fp_search_fails ieee_formats_eq)

section \<open>Concrete runs\<close>

text \<open>
  The double format is registered: its bias is 1023, and its exponents run from -1074
  (-1022 without denormals) to 1023.
\<close>

theorem format_exponents_witness:
  "ieee_double \<in> set registered
   \<and> bias ieee_double = 2 ^ nat (exp_bits ieee_double - 1) - 1
   \<and> bias ieee_double = 1023
   \<and> max_exp ieee_double = 1023
   \<and> min_exp ieee_double False = - 1022
   \<and> min_exp ieee_double True = - 1074
   \<and> min_value mp_exact 53 ieee_double True = Fin (2 powr (- 1074))
   \<and> max_value mp_exact 53 ieee_double = Fin (2 powr 1023)"
proof -
  have h: "ieee_double \<in> set registered" by (simp add: registered_def)
  have v: "bias ieee_double = 1023" "prec ieee_double = 53"
    by (simp_all add: ieee_double_def mk_IEEEFormat_def)
  have i: "mp_of_int mp_exact = (\<lambda>n. Fin (of_int n))" "mp_power mp_exact = (\<lambda>p. ext_power)"
    by (simp_all add: mp_exact_def)
  from format_exponents[OF h, of mp_exact 53 True] show ?thesis
    using h v i by simp
qed

text \<open>
  Precision 53 finds the double format and precision 10 raises \<open>KeyError\<close>; width 3
  raises \<open>KeyError\<close>, and width 8 (bytes) runs the block at precision 53 and puts the
  caller's precision back.
\<close>

theorem format_lookup_witness:
  "ieee_format (Some 53) 24 = Inr ieee_double
   \<and> ieee_format (Some 10) 53 = Inl (KeyError 10)
   \<and> workfloat 3 (\<lambda>w. Some (Inr w, w)) 53 = Some (Inl (KeyError 3), 53)
   \<and> workfloat 8 (\<lambda>w. Some (Inr w, w)) 24 = Some (Inr 53, 24)"
proof -
  have a: "(53::int) \<in> {24, 53, 63, 113}" and b: "(10::int) \<notin> {24, 53, 63, 113} \<and> (10::int) \<noteq> 0"
    and c: "(3::int) \<notin> {4, 8, 10, 16, 32, 64, 80, 128}" and d: "(8::int) \<in> {4, 8, 10, 16, 32, 64, 80, 128}"
    by simp_all
  have dbl: "ieee_double \<in> set registered" "prec ieee_double = 53"
    by (simp_all add: registered_def ieee_double_def mk_IEEEFormat_def)
  from format_lookup[of 53 24 3 "\<lambda>w. Some (Inr w, w)"] a c
  obtain fmt where f: "ieee_format (Some 53) 24 = Inr fmt"
      "\<forall>g\<in>set registered. prec g = 53 \<longrightarrow> g = fmt"
    and k3: "workfloat 3 (\<lambda>w. Some (Inr w, w)) 24 = Some (Inl (KeyError 3), 24)"
    by blast
  from f(2) dbl have "fmt = ieee_double" by blast
  with f(1) have 1: "ieee_format (Some 53) 24 = Inr ieee_double" by simp
  from format_lookup[of 10 53 3 "\<lambda>w. Some (Inr w, w)"] b c
  have 2: "ieee_format (Some 10) 53 = Inl (KeyError 10)"
    and 3: "workfloat 3 (\<lambda>w. Some (Inr w, w)) 53 = Some (Inl (KeyError 3), 53)"
    by blast+
  from format_lookup[of 53 24 8 "\<lambda>w. Some (Inr w, w)"] d
  obtain g where g: "workfloat_matches 8 = [g]"
      "workfloat 8 (\<lambda>w. Some (Inr w, w)) 24 = workprec (prec g) (\<lambda>w. Some (Inr w, w)) 24"
    by blast
  have "workfloat_matches 8 = [ieee_double]" by (simp add: workfloat_matches_eq)
  with g(1) have "g = ieee_double" by simp
  with g(2) dbl have 4: "workfloat 8 (\<lambda>w. Some (Inr w, w)) 24 = Some (Inr 53, 24)"
    by (simp add: workprec_def)
  from 1 2 3 4 show ?thesis by simp
qed

text \<open>
  Claim C5 as stated fails for a precision that is not registered: \<open>find_limit\<close> of
  \<open>fp/limits.py\<close> called with \<open>prec=10\<close> raises the \<open>KeyError\<close> of the format lookup,
  not a \<open>NameError\<close>.
\<close>

theorem fp_entry_points_keyerror:
  "fp_find_limit mp_exact (\<lambda>x. x) (Constant (Fin 1)) None None 0 (Some 10) 53
     = Some (Inl (KeyError 10), 53)
   \<and> fp_find_limit mp_exact (\<lambda>x. x) (Constant (Fin 1)) None None 0 (Some 10) 53
     \<noteq> Some (Inl (NameError ''find_fp''), 53)"
  by (simp add: fp_find_limit_def ieee_format_def prec_or_def ieee_formats_eq)

text \<open>
  Claim C2 against \<open>limits.py\<close>: the result of \<open>find_limit\<close> and of
  \<open>find_limit_reverse\<close> does not depend on \<open>nulp\<close>. The comparison built from
  \<open>nulp\<close> is not the one passed to \<open>find_fp\<close>, which always gets \<open>eq\<close> (\<open>ne\<close>).
\<close>

theorem find_limit_ignores_nulp:
  "find_limit M func limit xstart xstop nulp p mp_prec
     = find_limit M func limit xstart xstop 0 p mp_prec
   \<and> find_limit_reverse M func limit xstart xstop nulp p mp_prec
     = find_limit_reverse M func limit xstart xstop 0 p mp_prec"
  by (cases "ieee_format p mp_prec") (simp_all add: find_limit_def find_limit_reverse_def Let_def)

text \<open>
  Claim C3 against \<open>fp/limits.py\<close>: \<open>find_limit(cos, one, prec=53)\<close> does not return
  a triple, it raises \<open>NameError\<close> for \<open>find_fp\<close> before the bisection is reached.
  The bisection itself, given the limit \<open>one\<close> that \<open>find_limit\<close> hands on unchanged,
  raises \<open>TypeError\<close> in its first round: it calls \<open>limit(x)\<close>.
\<close>

theorem fp_find_limit_name_error:
  "fp_find_limit mp_exact (\<lambda>x. case x of Fin a \<Rightarrow> Fin (cos a) | _ \<Rightarrow> NaN) (Constant (Fin 1))
     None None 0 (Some 53) 53
     = Some (Inl (NameError ''find_fp''), 53)
   \<and> bisect_limit mp_exact (\<lambda>x. case x of Fin a \<Rightarrow> Fin (cos a) | _ \<Rightarrow> NaN) (Constant (Fin 1))
       (Fin 1) None 0 (Some 53) 53
     = Some (Inl TypeError, 53)"
proof -
  have "bisect_loop mp_exact 53 (=) (\<lambda>x. case x of Fin a \<Rightarrow> Fin (cos a) | _ \<Rightarrow> NaN)
      (Constant (Fin 1)) (Fin 1) None (Fin 1) (Fin 2) 0 = Some (Inl TypeError)"
    by (subst bisect_loop.simps) simp
  then have "bisect_limit mp_exact (\<lambda>x. case x of Fin a \<Rightarrow> Fin (cos a) | _ \<Rightarrow> NaN)
      (Constant (Fin 1)) (Fin 1) None 0 (Some 53) 53 = Some (Inl TypeError, 53)"
    by (simp add: bisect_limit_def ieee_format_def prec_or_def ieee_formats_eq workprec_def
        mp_exact_def)
  then show ?thesis
    by (simp add: fp_search_fails prec_or_def ieee_formats_eq)
qed

section \<open>The sign of the ULP\<close>













end
